theory Spec2Isabelle
  imports Main
begin

section \<open>Python strings\<close>

text \<open>
  A Python \<open>str\<close> is a sequence of Unicode code points. The prompt templates of
  \<open>llm_wrapper.py\<close> hold code points beyond one byte (the bullet U+2022), and
  \<open>str.strip\<close> and \<open>str.splitlines\<close> look at code points beyond ASCII, so a
  string is modelled as the list of its code points. \<open>ustr\<close> reads an ASCII literal.
\<close>

type_synonym codepoint = nat
type_synonym str = "codepoint list"

definition ustr :: "string \<Rightarrow> str" where
  "ustr s = map of_char s"

text \<open>
  \<open>str.isspace\<close> on one code point: U+0009..U+000D, U+001C..U+0020, U+0085, U+00A0,
  U+1680, U+2000..U+200A, U+2028, U+2029, U+202F, U+205F, U+3000.
\<close>

definition isspace :: "codepoint \<Rightarrow> bool" where
  "isspace c \<longleftrightarrow>
     (9 \<le> c \<and> c \<le> 13) \<or> (28 \<le> c \<and> c \<le> 32) \<or> c = 133 \<or> c = 160 \<or> c = 5760 \<or>
     (8192 \<le> c \<and> c \<le> 8202) \<or> c = 8232 \<or> c = 8233 \<or> c = 8239 \<or> c = 8287 \<or> c = 12288"

definition lstrip :: "str \<Rightarrow> str" where
  "lstrip s = dropWhile isspace s"

definition rstrip :: "str \<Rightarrow> str" where
  "rstrip s = rev (dropWhile isspace (rev s))"

text \<open>\<open>s.strip()\<close>: whitespace removed at both ends.\<close>

definition strip :: "str \<Rightarrow> str" where
  "strip s = rstrip (lstrip s)"

text \<open>\<open>s.rstrip(chars)\<close>: every trailing code point that occurs in \<open>chars\<close> is removed.\<close>

definition rstrip_chars :: "str \<Rightarrow> str \<Rightarrow> str" where
  "rstrip_chars chars s = rev (dropWhile (\<lambda>c. c \<in> set chars) (rev s))"

text \<open>
  The line boundaries of \<open>str.splitlines\<close>: \<open>\n\<close>, \<open>\r\<close>, \<open>\v\<close>, \<open>\f\<close>, U+001C,
  U+001D, U+001E, U+0085, U+2028, U+2029; \<open>\r\n\<close> counts as one boundary.
\<close>

definition is_linebreak :: "codepoint \<Rightarrow> bool" where
  "is_linebreak c \<longleftrightarrow> (10 \<le> c \<and> c \<le> 13) \<or> (28 \<le> c \<and> c \<le> 30) \<or> c = 133 \<or> c = 8232 \<or> c = 8233"

text \<open>
  \<open>splitlines_from line s\<close> scans \<open>s\<close> with \<open>line\<close> the part of the current line read so
  far. A line is closed at each boundary; what follows the last boundary is a line only
  when it is not empty.
\<close>

fun splitlines_from :: "str \<Rightarrow> str \<Rightarrow> str list" where
  "splitlines_from line [] = (if line = [] then [] else [line])"
| "splitlines_from line (c # s) =
     (if c = 13 \<and> s \<noteq> [] \<and> hd s = 10 then line # splitlines_from [] (tl s)
      else if is_linebreak c then line # splitlines_from [] s
      else splitlines_from (line @ [c]) s)"

definition splitlines :: "str \<Rightarrow> str list" where
  "splitlines s = splitlines_from [] s"

text \<open>
  \<open>s.upper()\<close> on the ASCII letters. Python also maps code points beyond ASCII, to code
  points beyond ASCII or to sequences that hold, of the ASCII letters, only
  A F H I J L N S T W Y; none of them gives a letter of \<open>PROCEDURE\<close>, so the comparison
  of \<open>_query_type\<close>, the only use of \<open>upper\<close>, is decided by the ASCII rule.
\<close>

definition upper_cp :: "codepoint \<Rightarrow> codepoint" where
  "upper_cp c = (if 97 \<le> c \<and> c \<le> 122 then c - 32 else c)"

definition upper :: "str \<Rightarrow> str" where
  "upper s = map upper_cp s"

text \<open>\<open>sep.join(xs)\<close>\<close>

fun join :: "str \<Rightarrow> str list \<Rightarrow> str" where
  "join sep [] = []"
| "join sep [x] = x"
| "join sep (x # y # ys) = x @ sep @ join sep (y # ys)"

text \<open>
  \<open>s.split(sep)\<close> for a separator of one code point, which is how \<open>procedure.py\<close>
  calls it: the pieces between the separators, the empty ones too, so that the result
  is never the empty list.
\<close>

fun split_from :: "codepoint \<Rightarrow> str \<Rightarrow> str \<Rightarrow> str list" where
  "split_from sep piece [] = [piece]"
| "split_from sep piece (c # s) =
     (if c = sep then piece # split_from sep [] s else split_from sep (piece @ [c]) s)"

definition split_on :: "codepoint \<Rightarrow> str \<Rightarrow> str list" where
  "split_on sep s = split_from sep [] s"

section \<open>Exceptions, call arguments, collaborators\<close>

text \<open>
  An exception raised by a collaborator or by Python itself: its class and its message.
  All of them are subclasses of \<open>Exception\<close>, which is what \<open>except Exception\<close> catches.
\<close>

datatype exn = Exn (cls: string) (message: str)

definition IndexError :: exn where
  "IndexError = Exn ''IndexError'' (ustr ''list index out of range'')"

definition AttributeError :: exn where
  "AttributeError = Exn ''AttributeError'' []"

text \<open>
  What leaves \<open>to_singlestore\<close> as an exception: its own
  \<open>ValueError(message)\<close> raised \<open>from\<close> a cause, or a collaborator's exception that
  no handler touched.
\<close>

datatype error = ValueError str exn | Propagated exn

text \<open>\<open>xs[0]\<close>\<close>

definition item0 :: "'a list \<Rightarrow> exn + 'a" where
  "item0 xs = (case xs of [] \<Rightarrow> Inl IndexError | x # _ \<Rightarrow> Inr x)"

text \<open>
  The values handed to a service and decoded from its answer: \<open>None\<close>, strings,
  numbers, booleans, lists and dictionaries (a dictionary by its items, the keys
  distinct). A call is recorded by its keyword arguments, name by name, as the call site
  writes them.
\<close>

datatype json = Null | Str str | Num nat | Flag bool | Arr "json list" | Obj "(str \<times> json) list"

type_synonym kwargs = "(string \<times> json) list"

text \<open>
  A call of \<open>requests.post\<close>: the URL, which is positional, and the keyword arguments.
  The response object is given by what its two methods do when \<open>procedure.py\<close> calls
  them: \<open>raise_for_status()\<close> raises or not, \<open>json()\<close> returns the decoded body or
  raises.
\<close>

type_synonym post_call = "str \<times> kwargs"

record http_response =
  raise_for_status :: "exn option"
  json_body :: "exn + json"

text \<open>
  What \<open>_query_type\<close> reads of a parsed expression: the three \<open>isinstance\<close> tests and
  the \<open>kind\<close> argument (a string or \<open>None\<close>). The classes themselves are sqlglot's.
\<close>

record expression =
  is_Create :: bool
  kind :: "str option"
  is_Insert :: bool
  is_DDL :: bool

text \<open>
  The collaborators. \<open>parse_one sql read\<close> and \<open>transpile sql read write\<close> are
  sqlglot's, pure functions of their arguments that return or raise. \<open>chat\<close> is
  \<open>ollama.chat\<close>: it is given the calls made before this one, in order, and the
  keyword arguments of this one, and gives \<open>response["message"]["content"]\<close> or the
  exception raised; its answer may differ from call to call. \<open>post\<close> is
  \<open>requests.post\<close>, given the earlier calls in the same way.
\<close>

record env =
  parse_one :: "str \<Rightarrow> str \<Rightarrow> exn + expression"
  transpile :: "str \<Rightarrow> str \<Rightarrow> str \<Rightarrow> exn + str list"
  chat :: "kwargs list \<Rightarrow> kwargs \<Rightarrow> exn + str"
  post :: "post_call list \<Rightarrow> post_call \<Rightarrow> exn + http_response"

text \<open>One call of the assistant: the answer, and the log of calls with this one added.\<close>

definition ollama_chat :: "env \<Rightarrow> kwargs \<Rightarrow> kwargs list \<Rightarrow> (exn + str) \<times> kwargs list" where
  "ollama_chat E kw log = (chat E log kw, log @ [kw])"

section \<open>llm_wrapper.py\<close>

text \<open>
  The templates, each as the function \<open>TEMPLATE.format(...)\<close> computes: the text with
  its fields filled in. The bullet is U+2022; the three code points after
  \<open>SingleStore\<close> are U+00E2, U+20AC, U+2122, as the source file has them.
\<close>

definition STORED_PROCEDURE_PROMPT :: "str \<Rightarrow> str" where
  "STORED_PROCEDURE_PROMPT procedure =
     ustr ''You are an expert in SingleStore Helios stored-procedure syntax and '' @
     ustr ''semantics.  Your job is to take the INPUT_PROCEDURE, identify any '' @
     ustr ''language constructs or SQL features that are not supported by SingleStore, '' @
     ustr ''and emit a fully valid SingleStore stored procedure as OUTPUT_PROCEDURE.\<newline>\<newline>'' @
     ustr ''Make these changes automatically:\<newline>'' @
     [8226] @ ustr '' Rewrite the header as CREATE OR REPLACE PROCEDURE, include any RETURNS '' @
     ustr ''clause and the appropriate AUTHORIZE AS DEFINER or AUTHORIZE AS CURRENT_USER '' @
     ustr ''clause.\<newline>'' @
     [8226] @ ustr '' Declare all local variables with DECLARE and default-value assignments, '' @
     ustr ''remove unsupported modifiers on query-type parameters.\<newline>'' @
     [8226] @ ustr '' Replace any multi-row returns with ECHO SELECT to emit a rowset, or use '' @
     ustr ''RETURNS QUERY(...) where appropriate.\<newline>'' @
     [8226] @ ustr '' Wrap the procedure body between DELIMITER // and DELIMITER ; so that '' @
     ustr ''semicolons within the body are handled correctly by MySQL clients.\<newline>'' @
     [8226] @ ustr '' Strip or refactor any DDL statements that SingleStore does not allow '' @
     ustr ''inside procedures invoked from pipelines.\<newline>'' @
     [8226] @ ustr '' Ensure that any unsupported statements (for example EXPLAIN BALANCE or '' @
     ustr ''DDL inside a pipeline) are either removed or rewritten to SingleStore '' @
     ustr ''equivalents.\<newline>'' @
     [8226] @ ustr '' Preserve nested DECLARE blocks, %ROWTYPE and %TYPE uses, and loop or '' @
     ustr ''control-flow constructs, translating them into SingleStore'' @ [226, 8364, 8482] @
     ustr ''s procedural '' @
     ustr ''extensions.\<newline>'' @
     ustr ''At the end, output the converted procedure code only, formatted with '' @
     ustr ''appropriate DELIMITER commands and SQL fences.\<newline>\<newline>'' @
     ustr ''Here is the procedure to convert.  Replace INPUT_PROCEDURE with the original '' @
     ustr ''routine:\<newline>\<newline>INPUT_PROCEDURE:\<newline>'' @ procedure @
     ustr ''\<newline>\<newline>OUTPUT_PROCEDURE:''"

definition BREAKDOWN_PROMPT :: "str \<Rightarrow> str" where
  "BREAKDOWN_PROMPT procedure =
     ustr ''List each data manipulation statement (SELECT, INSERT, UPDATE, DELETE, '' @
     ustr ''MERGE) from the following stored procedure. Return one statement per '' @
     ustr ''line in the same order and do not include any additional text.\<newline>\<newline>'' @
     ustr ''STORED_PROCEDURE:\<newline>'' @ procedure @ ustr ''\<newline>\<newline>STATEMENTS:''"

definition REASSEMBLE_PROMPT :: "str \<Rightarrow> str \<Rightarrow> str" where
  "REASSEMBLE_PROMPT procedure converted =
     STORED_PROCEDURE_PROMPT procedure @
     ustr ''\<newline>Use these SingleStore statements for the procedure body:\<newline>'' @ converted @
     ustr ''\<newline>''"

text \<open>\<open>class LLMWrapper\<close>: the one attribute set by \<open>__init__\<close>.\<close>

record LLMWrapper =
  model :: str

definition init :: "str \<Rightarrow> LLMWrapper" where
  "init m = \<lparr>model = m\<rparr>"

definition default_model :: str where
  "default_model = ustr ''llama3''"

text \<open>\<open>_query_type\<close>; \<open>(expression.kind or "")\<close> is the empty string for \<open>None\<close>.\<close>

definition query_type :: "expression \<Rightarrow> str" where
  "query_type expression =
     (if is_Create expression \<and>
         upper (case kind expression of None \<Rightarrow> [] | Some k \<Rightarrow> k) = ustr ''PROCEDURE''
      then ustr ''stored procedure''
      else if is_Insert expression then ustr ''insert query''
      else if is_DDL expression then ustr ''DDL query''
      else ustr ''query'')"

text \<open>\<open>_prompt\<close>; the \<open>dialect\<close> argument is not used.\<close>

definition prompt :: "str \<Rightarrow> str \<Rightarrow> str option \<Rightarrow> str" where
  "prompt knd sql dialect =
     (if knd = ustr ''stored procedure'' then STORED_PROCEDURE_PROMPT sql
      else ustr ''Double check that the following '' @ knd @
           ustr '' is valid SingleStore SQL:\<newline>'' @ sql)"

text \<open>One entry of the \<open>messages\<close> list, \<open>{"role": ..., "content": ...}\<close>.\<close>

definition msg :: "str \<Rightarrow> str \<Rightarrow> json" where
  "msg role content = Obj [(ustr ''role'', Str role), (ustr ''content'', Str content)]"

text \<open>
  The keyword arguments of \<open>ollama.chat(model=self.model, messages=messages)\<close>, the
  form of all three calls of the class.
\<close>

definition chat_kwargs :: "LLMWrapper \<Rightarrow> json list \<Rightarrow> kwargs" where
  "chat_kwargs self messages = [(''model'', Str (model self)), (''messages'', Arr messages)]"

text \<open>\<open>_decompose_procedure\<close>\<close>

definition decompose_procedure ::
  "LLMWrapper \<Rightarrow> env \<Rightarrow> str \<Rightarrow> kwargs list \<Rightarrow> (exn + str list) \<times> kwargs list" where
  "decompose_procedure self E sql log =
     (let p = BREAKDOWN_PROMPT sql;
          messages = [msg (ustr ''system'') (ustr ''You extract SQL statements.''),
                      msg (ustr ''user'') p]
      in case ollama_chat E (chat_kwargs self messages) log of
           (Inl e, log') \<Rightarrow> (Inl e, log')
         | (Inr content, log') \<Rightarrow>
             (Inr (map strip (filter (\<lambda>line. strip line \<noteq> []) (splitlines content))), log'))"

text \<open>\<open>_reassemble_procedure\<close>\<close>

definition reassemble_procedure ::
  "LLMWrapper \<Rightarrow> env \<Rightarrow> str \<Rightarrow> str \<Rightarrow> kwargs list \<Rightarrow> (exn + str) \<times> kwargs list" where
  "reassemble_procedure self E original converted log =
     (let p = REASSEMBLE_PROMPT original converted;
          messages = [msg (ustr ''system'') (ustr ''You translate SQL between dialects.''),
                      msg (ustr ''user'') p]
      in case ollama_chat E (chat_kwargs self messages) log of
           (Inl e, log') \<Rightarrow> (Inl e, log')
         | (Inr content, log') \<Rightarrow> (Inr (strip content), log'))"

text \<open>
  The expression \<open>transpile(sql, read=dialect, write="singlestore")[0]\<close> of
  \<open>_transpile_procedure\<close> and \<open>to_singlestore\<close>: the transpiler may raise, and so may
  the \<open>[0]\<close>.
\<close>

definition transpile0 :: "env \<Rightarrow> str \<Rightarrow> str \<Rightarrow> exn + str" where
  "transpile0 E sql dialect =
     (case transpile E sql dialect (ustr ''singlestore'') of
        Inl e \<Rightarrow> Inl e
      | Inr out \<Rightarrow> item0 out)"

text \<open>
  The body of the \<open>for\<close> loop of \<open>_transpile_procedure\<close>, as the text it appends to
  \<open>converted\<close>. The \<open>try\<close> covers the call of the transpiler and the \<open>[0]\<close>;
  \<open>except Exception: pass\<close> leaves \<open>text\<close> as \<open>rstrip\<close> made it.
\<close>

definition convert_statement :: "env \<Rightarrow> str \<Rightarrow> str \<Rightarrow> str" where
  "convert_statement E dialect stmt =
     (let text = rstrip_chars (ustr '';'') stmt;
          text = (case transpile0 E text dialect of Inl e \<Rightarrow> text | Inr t \<Rightarrow> t)
      in text @ ustr '';'')"

text \<open>The loop itself: \<open>converted\<close> grows at its end, one text per statement.\<close>

fun convert_loop :: "env \<Rightarrow> str \<Rightarrow> str list \<Rightarrow> str list \<Rightarrow> str list" where
  "convert_loop E dialect [] converted = converted"
| "convert_loop E dialect (stmt # statements) converted =
     convert_loop E dialect statements (converted @ [convert_statement E dialect stmt])"

text \<open>\<open>_transpile_procedure\<close>\<close>

definition wrapper_transpile_procedure ::
  "LLMWrapper \<Rightarrow> env \<Rightarrow> str \<Rightarrow> str \<Rightarrow> kwargs list \<Rightarrow> (exn + str) \<times> kwargs list" where
  "wrapper_transpile_procedure self E sql dialect log =
     (case decompose_procedure self E sql log of
        (Inl e, log') \<Rightarrow> (Inl e, log')
      | (Inr statements, log') \<Rightarrow>
          (let converted = convert_loop E dialect statements [];
               joined = join (ustr ''\<newline>'') converted
           in reassemble_procedure self E sql joined log'))"

text \<open>An exception that no handler of \<open>to_singlestore\<close> catches leaves it as it is.\<close>

definition propagate :: "(exn + 'a) \<times> kwargs list \<Rightarrow> (error + 'a) \<times> kwargs list" where
  "propagate r = (case r of (Inl e, log) \<Rightarrow> (Inl (Propagated e), log) | (Inr x, log) \<Rightarrow> (Inr x, log))"

text \<open>\<open>to_singlestore\<close>; the default of \<open>dialect\<close> is \<open>tsql\<close>.\<close>

definition default_dialect :: str where
  "default_dialect = ustr ''tsql''"

definition to_singlestore ::
  "LLMWrapper \<Rightarrow> env \<Rightarrow> str \<Rightarrow> str \<Rightarrow> kwargs list \<Rightarrow> (error + str) \<times> kwargs list" where
  "to_singlestore self E sql dialect log =
     (case parse_one E sql dialect of
        Inl e \<Rightarrow> (Inl (ValueError (ustr ''Please provide sql.'') e), log)
      | Inr expression \<Rightarrow>
          (let knd = query_type expression
           in if knd = ustr ''stored procedure''
              then propagate (wrapper_transpile_procedure self E sql dialect log)
              else
                (case transpile0 E sql dialect of
                   Inl e \<Rightarrow> (Inl (Propagated e), log)
                 | Inr transpiled \<Rightarrow>
                     (let p = prompt knd transpiled None;
                          messages =
                            [msg (ustr ''system'') (ustr ''You translate SQL between dialects.''),
                             msg (ustr ''user'') p]
                      in propagate
                           (case ollama_chat E (chat_kwargs self messages) log of
                              (Inl e, log') \<Rightarrow> (Inl e, log')
                            | (Inr content, log') \<Rightarrow> (Inr (strip content), log'))))))"

section \<open>procedure.py\<close>

definition LLM_URL :: str where
  "LLM_URL = ustr ''http://localhost:11434/api/generate''"

definition default_llm_model :: str where
  "default_llm_model = ustr ''llama2''"

text \<open>
  \<open>data.get(key, default)\<close>: a dictionary answers; any other decoded value has no
  \<open>get\<close>.
\<close>

definition get :: "json \<Rightarrow> str \<Rightarrow> json \<Rightarrow> exn + json" where
  "get data key dflt =
     (case data of
        Obj kv \<Rightarrow> (case map_of kv key of None \<Rightarrow> Inr dflt | Some v \<Rightarrow> Inr v)
      | _ \<Rightarrow> Inl AttributeError)"

text \<open>\<open>_call_llm\<close>\<close>

definition call_llm ::
  "env \<Rightarrow> str \<Rightarrow> str \<Rightarrow> str \<Rightarrow> post_call list \<Rightarrow> (exn + json) \<times> post_call list" where
  "call_llm E p mdl url plog =
     (let payload = Obj [(ustr ''model'', Str mdl), (ustr ''prompt'', Str p),
                         (ustr ''stream'', Flag False)];
          call = (url, [(''json'', payload), (''timeout'', Num 60)]);
          plog' = plog @ [call]
      in case post E plog call of
           Inl e \<Rightarrow> (Inl e, plog')
         | Inr response \<Rightarrow>
             (case raise_for_status response of
                Some e \<Rightarrow> (Inl e, plog')
              | None \<Rightarrow>
                  (case json_body response of
                     Inl e \<Rightarrow> (Inl e, plog')
                   | Inr data \<Rightarrow> (get data (ustr ''response'') (Str []), plog'))))"

text \<open>
  \<open>extract_transpilable_sql\<close>; \<open>raw.split\<close> needs \<open>raw\<close> to be a string.
\<close>

definition extract_transpilable_sql ::
  "env \<Rightarrow> str \<Rightarrow> str \<Rightarrow> str \<Rightarrow> post_call list \<Rightarrow> (exn + str list) \<times> post_call list" where
  "extract_transpilable_sql E procedure mdl url plog =
     (let p = ustr ''Extract the SQL statements from the following stored procedure. '' @
              ustr ''Return the statements separated by a semicolon.\<newline>'' @ procedure
      in case call_llm E p mdl url plog of
           (Inl e, plog') \<Rightarrow> (Inl e, plog')
         | (Inr raw, plog') \<Rightarrow>
             (case raw of
                Str r \<Rightarrow> (Inr (map strip (filter (\<lambda>s. strip s \<noteq> []) (split_on 59 r))), plog')
              | _ \<Rightarrow> (Inl AttributeError, plog')))"

text \<open>
  The generator of \<open>transpile_procedure\<close>, \<open>transpile(stmt, read=read, write=write)[0]\<close>
  for each statement in turn, as \<open>join\<close> consumes it: no handler, so the first exception
  ends it.
\<close>

fun converted_items :: "env \<Rightarrow> str \<Rightarrow> str \<Rightarrow> str list \<Rightarrow> exn + str list" where
  "converted_items E read write [] = Inr []"
| "converted_items E read write (stmt # statements) =
     (case transpile E stmt read write of
        Inl e \<Rightarrow> Inl e
      | Inr out \<Rightarrow>
          (case item0 out of
             Inl e \<Rightarrow> Inl e
           | Inr t \<Rightarrow>
               (case converted_items E read write statements of
                  Inl e \<Rightarrow> Inl e
                | Inr ts \<Rightarrow> Inr (t # ts))))"

text \<open>\<open>transpile_procedure\<close>\<close>

definition transpile_procedure ::
  "env \<Rightarrow> str \<Rightarrow> str \<Rightarrow> str \<Rightarrow> str \<Rightarrow> str \<Rightarrow> post_call list \<Rightarrow> (exn + str) \<times> post_call list" where
  "transpile_procedure E procedure read write mdl url plog =
     (case extract_transpilable_sql E procedure mdl url plog of
        (Inl e, plog') \<Rightarrow> (Inl e, plog')
      | (Inr statements, plog') \<Rightarrow>
          (case converted_items E read write statements of
             Inl e \<Rightarrow> (Inl e, plog')
           | Inr converted \<Rightarrow>
               (let body = join (ustr '';\<newline>'') converted @ ustr '';''
                in (Inr (ustr ''DELIMITER //\<newline>'' @ body @ ustr ''\<newline>//\<newline>DELIMITER ;''), plog'))))"

section \<open>The calls, and the specification's reading of three steps\<close>

text \<open>The keyword arguments of the three assistant calls of \<open>LLMWrapper\<close>.\<close>

definition decompose_call :: "LLMWrapper \<Rightarrow> str \<Rightarrow> kwargs" where
  "decompose_call self sql =
     chat_kwargs self [msg (ustr ''system'') (ustr ''You extract SQL statements.''),
                       msg (ustr ''user'') (BREAKDOWN_PROMPT sql)]"

definition reassemble_call :: "LLMWrapper \<Rightarrow> str \<Rightarrow> str \<Rightarrow> kwargs" where
  "reassemble_call self original converted =
     chat_kwargs self [msg (ustr ''system'') (ustr ''You translate SQL between dialects.''),
                       msg (ustr ''user'') (REASSEMBLE_PROMPT original converted)]"

definition validate_call :: "LLMWrapper \<Rightarrow> str \<Rightarrow> str \<Rightarrow> kwargs" where
  "validate_call self knd transpiled =
     chat_kwargs self [msg (ustr ''system'') (ustr ''You translate SQL between dialects.''),
                       msg (ustr ''user'')
                         (ustr ''Double check that the following '' @ knd @
                          ustr '' is valid SingleStore SQL:\<newline>'' @ transpiled)]"

text \<open>
  The classifier as the specification words it: four handling classes, the rules in
  their priority order, the kind compared without regard to the case of its letters.
\<close>

datatype handling_class = StoredProcedure | Insert | DDL | Generic

definition same_letter :: "codepoint \<Rightarrow> codepoint \<Rightarrow> bool" where
  "same_letter a b \<longleftrightarrow>
     a = b \<or> (65 \<le> a \<and> a \<le> 90 \<and> b = a + 32) \<or> (65 \<le> b \<and> b \<le> 90 \<and> a = b + 32)"

definition equal_ignoring_case :: "str \<Rightarrow> str \<Rightarrow> bool" where
  "equal_ignoring_case s t = list_all2 same_letter s t"

definition classify :: "expression \<Rightarrow> handling_class" where
  "classify parsed =
     (if is_Create parsed \<and>
         (case kind parsed of None \<Rightarrow> False | Some k \<Rightarrow> equal_ignoring_case k (ustr ''PROCEDURE''))
      then StoredProcedure
      else if is_Insert parsed then Insert
      else if is_DDL parsed then DDL
      else Generic)"

text \<open>The string by which \<open>_query_type\<close> names each class.\<close>

fun class_name :: "handling_class \<Rightarrow> str" where
  "class_name StoredProcedure = ustr ''stored procedure''"
| "class_name Insert = ustr ''insert query''"
| "class_name DDL = ustr ''DDL query''"
| "class_name Generic = ustr ''query''"

text \<open>
  Decomposition as the specification words it: the response split into lines, each
  line trimmed, the lines that are then empty discarded.
\<close>

definition statement_batch :: "str \<Rightarrow> str list" where
  "statement_batch response = filter (\<lambda>line. line \<noteq> []) (map strip (splitlines response))"



section \<open>Collaborators to run the pipeline on\<close>

text \<open>
  A parser that knows two texts, a transpiler that knows two statements, an assistant
  that answers from a script (the n-th call gets the n-th entry, and a call beyond the
  script finds the service down), and an HTTP service with one fixed answer.
\<close>

definition select_unit :: expression where
  "select_unit = \<lparr>is_Create = False, kind = None, is_Insert = False, is_DDL = False\<rparr>"

definition procedure_unit :: expression where
  "procedure_unit = \<lparr>is_Create = True, kind = Some (ustr ''procedure''), is_Insert = False, is_DDL = True\<rparr>"

definition procedure_text :: str where
  "procedure_text = ustr ''CREATE PROCEDURE p AS BEGIN SELECT TOP 1 a FROM t; END''"

definition example_parse_one :: "str \<Rightarrow> str \<Rightarrow> exn + expression" where
  "example_parse_one sql read =
     (if sql = ustr ''SELECT TOP 1 a FROM t'' then Inr select_unit
      else if sql = procedure_text then Inr procedure_unit
      else Inl (Exn ''ParseError'' (ustr ''No expression was parsed'')))"

definition example_transpile :: "str \<Rightarrow> str \<Rightarrow> str \<Rightarrow> exn + str list" where
  "example_transpile sql read write =
     (if sql = ustr ''SELECT TOP 1 a FROM t'' then Inr [ustr ''SELECT a FROM t LIMIT 1'']
      else if sql = ustr ''SELECT 1'' then Inr [ustr ''SELECT 1'']
      else Inl (Exn ''ParseError'' (ustr ''Invalid expression'')))"

definition service_down :: exn where
  "service_down = Exn ''ConnectionError'' (ustr ''Failed to connect to Ollama'')"

definition scripted :: "(exn + str) list \<Rightarrow> kwargs list \<Rightarrow> kwargs \<Rightarrow> exn + str" where
  "scripted script log kw = (if length log < length script then script ! length log else Inl service_down)"

definition example_post :: "post_call list \<Rightarrow> post_call \<Rightarrow> exn + http_response" where
  "example_post plog call =
     Inr \<lparr>raise_for_status = None,
          json_body = Inr (Obj [(ustr ''response'', Str (ustr ''SELECT 1; DROP IT; ''))])\<rparr>"

definition example_env :: "(exn + str) list \<Rightarrow> env" where
  "example_env script =
     \<lparr>parse_one = example_parse_one, transpile = example_transpile,
      chat = scripted script, post = example_post\<rparr>"

definition wrapper :: LLMWrapper where
  "wrapper = init default_model"

section \<open>Facts about the string functions\<close>







lemma lstrip_id: "s = [] \<or> \<not> isspace (hd s) \<Longrightarrow> lstrip s = s"
  by (cases s) (auto simp: lstrip_def)

lemma rstrip_id: "s = [] \<or> \<not> isspace (last s) \<Longrightarrow> rstrip s = s"
  by (cases s rule: rev_cases) (auto simp: rstrip_def)

lemma strip_id:
  "s = [] \<or> (\<not> isspace (hd s) \<and> \<not> isspace (last s)) \<Longrightarrow> strip s = s"
  using lstrip_id [of s] rstrip_id [of s] by (auto simp: strip_def)

lemma upper_cp_capital:
  "65 \<le> b \<Longrightarrow> b \<le> 90 \<Longrightarrow> upper_cp a = b \<longleftrightarrow> same_letter a b"
  by (auto simp: upper_cp_def same_letter_def)

lemma upper_capitals:
  "\<forall>b \<in> set p. 65 \<le> b \<and> b \<le> 90 \<Longrightarrow> upper k = p \<longleftrightarrow> equal_ignoring_case k p"
proof (induction k arbitrary: p)
  case Nil
  then show ?case by (auto simp: upper_def equal_ignoring_case_def)
next
  case (Cons a k)
  show ?case
  proof (cases p)
    case Nil
    then show ?thesis by (simp add: upper_def equal_ignoring_case_def)
  next
    case (Cons b q)
    with Cons.prems have b: "65 \<le> b" "b \<le> 90" and q: "\<forall>b \<in> set q. 65 \<le> b \<and> b \<le> 90"
      by simp_all
    from Cons.IH [OF q] have "upper k = q \<longleftrightarrow> equal_ignoring_case k q" .
    with b show ?thesis
      using upper_cp_capital [of b a]
      by (simp add: Cons upper_def equal_ignoring_case_def)
  qed
qed

lemma upper_PROCEDURE:
  "upper k = ustr ''PROCEDURE'' \<longleftrightarrow> equal_ignoring_case k (ustr ''PROCEDURE'')"
  by (rule upper_capitals) (simp add: ustr_def)

lemma class_name_inj: "class_name c = class_name c' \<Longrightarrow> c = c'"
  by (cases c; cases c') (simp_all add: ustr_def)

section \<open>Facts about the steps of the pipeline\<close>

lemma convert_loop_map:
  "convert_loop E dialect statements converted =
     converted @ map (convert_statement E dialect) statements"
  by (induction statements arbitrary: converted) simp_all


lemma statement_batch_eq:
  "map strip (filter (\<lambda>line. strip line \<noteq> []) (splitlines response)) = statement_batch response"
  by (simp add: statement_batch_def filter_map comp_def)

lemma decompose_procedure_eq:
  "decompose_procedure self E sql log =
     (case chat E log (decompose_call self sql) of
        Inl e \<Rightarrow> Inl e
      | Inr content \<Rightarrow> Inr (map strip (filter (\<lambda>line. strip line \<noteq> []) (splitlines content))),
      log @ [decompose_call self sql])"
  by (simp add: decompose_procedure_def decompose_call_def ollama_chat_def Let_def split: sum.splits)

lemma reassemble_procedure_eq:
  "reassemble_procedure self E original converted log =
     (case chat E log (reassemble_call self original converted) of
        Inl e \<Rightarrow> Inl e
      | Inr content \<Rightarrow> Inr (strip content),
      log @ [reassemble_call self original converted])"
  by (simp add: reassemble_procedure_def reassemble_call_def ollama_chat_def Let_def split: sum.splits)

lemma wrapper_transpile_procedure_eq:
  "wrapper_transpile_procedure self E sql dialect log =
     (case fst (decompose_procedure self E sql log) of
        Inl e \<Rightarrow> (Inl e, log @ [decompose_call self sql])
      | Inr statements \<Rightarrow>
          reassemble_procedure self E sql
            (join (ustr ''\<newline>'') (map (convert_statement E dialect) statements))
            (log @ [decompose_call self sql]))"
  by (simp add: wrapper_transpile_procedure_def decompose_procedure_eq convert_loop_map Let_def
           split: sum.splits)

text \<open>Unfolding sets for running the definitions on the example collaborators.\<close>

lemmas example_defs =
  example_env_def example_parse_one_def example_transpile_def scripted_def
  select_unit_def procedure_unit_def procedure_text_def default_dialect_def service_down_def

lemmas str_defs =
  ustr_def rstrip_chars_def strip_def lstrip_def rstrip_def isspace_def is_linebreak_def
  splitlines_def

text \<open>The example collaborators on the two texts they know.\<close>

lemma example_select_parsed:
  "parse_one (example_env script) (ustr ''SELECT TOP 1 a FROM t'') default_dialect = Inr select_unit"
  by (simp add: example_defs ustr_def)

lemma example_select_kind: "query_type select_unit = ustr ''query''"
  by (simp add: query_type_def select_unit_def)

lemma example_select_transpiled:
  "transpile0 (example_env script) (ustr ''SELECT TOP 1 a FROM t'') default_dialect =
     Inr (ustr ''SELECT a FROM t LIMIT 1'')"
  by (simp add: transpile0_def item0_def example_defs ustr_def)

lemma example_procedure_parsed:
  "parse_one (example_env script) procedure_text default_dialect = Inr procedure_unit"
  by (simp add: example_defs ustr_def)

lemma example_procedure_kind: "query_type procedure_unit = ustr ''stored procedure''"
  by (simp add: query_type_def procedure_unit_def upper_def upper_cp_def ustr_def)

text \<open>Every call that \<open>to_singlestore\<close> adds to the log has the two keyword arguments of \<open>chat_kwargs\<close>.\<close>

lemma chat_kwargs_names: "map fst (chat_kwargs self messages) = [''model'', ''messages'']"
  by (simp add: chat_kwargs_def)

lemma to_singlestore_calls:
  "\<exists>calls. snd (to_singlestore self E sql dialect log) = log @ calls
     \<and> (\<forall>kw \<in> set calls. map fst kw = [''model'', ''messages''])"
proof (cases "parse_one E sql dialect")
  case (Inl e)
  then show ?thesis by (simp add: to_singlestore_def)
next
  case (Inr expression)
  show ?thesis
  proof (cases "query_type expression = ustr ''stored procedure''")
    case True
    with Inr have "to_singlestore self E sql dialect log =
        propagate (wrapper_transpile_procedure self E sql dialect log)"
      by (simp add: to_singlestore_def Let_def)
    then show ?thesis
      by (auto simp: propagate_def wrapper_transpile_procedure_eq decompose_procedure_eq
            reassemble_procedure_eq decompose_call_def reassemble_call_def chat_kwargs_names
          split: sum.splits prod.splits)
  next
    case False
    with Inr show ?thesis
      by (auto simp: to_singlestore_def Let_def propagate_def ollama_chat_def chat_kwargs_names
          split: sum.splits prod.splits)
  qed
qed

section \<open>Facts about procedure.py\<close>

text \<open>
  The module is not used by \<open>LLMWrapper\<close>. Its one call of the service sets a timeout
  of 60 seconds; its statements are the pieces between semicolons; and it has no handler
  around the transpiler, so that one failing statement fails the whole call.
\<close>

lemma call_llm_calls:
  "snd (call_llm E p mdl url plog) =
     plog @ [(url, [(''json'', Obj [(ustr ''model'', Str mdl), (ustr ''prompt'', Str p),
                                    (ustr ''stream'', Flag False)]),
                    (''timeout'', Num 60)])]"
  by (simp add: call_llm_def Let_def split: sum.splits option.splits)

lemma converted_items_failure:
  "stmt \<in> set statements \<Longrightarrow> transpile E stmt read write = Inl e \<Longrightarrow>
   isl (converted_items E read write statements)"
  by (induction statements) (auto split: sum.splits)

lemma transpile_procedure_failure:
  assumes "extract_transpilable_sql E procedure mdl url plog = (Inr statements, plog')"
      and "stmt \<in> set statements" and "transpile E stmt read write = Inl e"
  shows "isl (fst (transpile_procedure E procedure read write mdl url plog))"
proof -
  from assms(2,3) have "isl (converted_items E read write statements)"
    by (rule converted_items_failure)
  then obtain e' where "converted_items E read write statements = Inl e'"
    by (cases "converted_items E read write statements") simp_all
  with assms(1) show ?thesis
    by (simp add: transpile_procedure_def)
qed

lemma extract_transpilable_sql_example:
  "fst (extract_transpilable_sql (example_env []) procedure_text default_llm_model LLM_URL []) =
     Inr [ustr ''SELECT 1'', ustr ''DROP IT'']"
  by (simp add: extract_transpilable_sql_def call_llm_def get_def Let_def example_env_def
        example_post_def split_on_def str_defs)

lemma transpile_procedure_example:
  "fst (transpile_procedure (example_env []) procedure_text default_dialect (ustr ''singlestore'')
          default_llm_model LLM_URL []) =
     Inl (Exn ''ParseError'' (ustr ''Invalid expression''))"
proof -
  obtain plog' where extracted:
    "extract_transpilable_sql (example_env []) procedure_text default_llm_model LLM_URL [] =
      (Inr [ustr ''SELECT 1'', ustr ''DROP IT''], plog')"
    using extract_transpilable_sql_example by (metis prod.collapse)
  have items: "converted_items (example_env []) default_dialect (ustr ''singlestore'')
      [ustr ''SELECT 1'', ustr ''DROP IT''] = Inl (Exn ''ParseError'' (ustr ''Invalid expression''))"
    by (simp add: item0_def example_defs ustr_def)
  from extracted items show ?thesis
    by (simp add: transpile_procedure_def)
qed

section \<open>The claims\<close>



text \<open>
  Claim C2. For the batch that decomposition returns, the loop gives one text per
  statement, the i-th text being the conversion of the i-th statement, and
  \<open>_transpile_procedure\<close> hands these texts, joined by newlines in that order, to
  reassembly: the one call reassembly adds to the log carries them.
\<close>

theorem transpile_procedure_order:
  assumes "decompose_procedure self E sql log = (Inr statements, log')"
  shows "length (convert_loop E dialect statements []) = length statements
       \<and> (\<forall>i<length statements.
             convert_loop E dialect statements [] ! i = convert_statement E dialect (statements ! i))
       \<and> wrapper_transpile_procedure self E sql dialect log =
           reassemble_procedure self E sql
             (join (ustr ''\<newline>'') (map (convert_statement E dialect) statements)) log'
       \<and> snd (wrapper_transpile_procedure self E sql dialect log) =
           log' @ [reassemble_call self sql
                     (join (ustr ''\<newline>'') (map (convert_statement E dialect) statements))]"
proof -
  have len: "length (convert_loop E dialect statements []) = length statements"
    by (simp add: convert_loop_map)
  have nth: "\<forall>i<length statements.
      convert_loop E dialect statements [] ! i = convert_statement E dialect (statements ! i)"
    by (simp add: convert_loop_map)
  have run: "wrapper_transpile_procedure self E sql dialect log =
      reassemble_procedure self E sql
        (join (ustr ''\<newline>'') (map (convert_statement E dialect) statements)) log'"
    using assms by (simp add: wrapper_transpile_procedure_def convert_loop_map Let_def)
  have calls: "snd (wrapper_transpile_procedure self E sql dialect log) =
      log' @ [reassemble_call self sql
                (join (ustr ''\<newline>'') (map (convert_statement E dialect) statements))]"
    by (simp add: run reassemble_procedure_eq)
  from len nth run calls show ?thesis by blast
qed

theorem transpile_procedure_order_witness:
  "decompose_procedure wrapper
     (example_env [Inr (ustr ''SELECT TOP 1 a FROM t;\<newline>  DROP IT;\<newline>\<newline>'')])
     procedure_text [] =
     (Inr [ustr ''SELECT TOP 1 a FROM t;'', ustr ''DROP IT;''], [decompose_call wrapper procedure_text])
   \<and> convert_loop (example_env [Inr (ustr ''SELECT TOP 1 a FROM t;\<newline>  DROP IT;\<newline>\<newline>'')])
        default_dialect [ustr ''SELECT TOP 1 a FROM t;'', ustr ''DROP IT;''] [] =
        [ustr ''SELECT a FROM t LIMIT 1;'', ustr ''DROP IT;'']
   \<and> snd (wrapper_transpile_procedure wrapper
        (example_env [Inr (ustr ''SELECT TOP 1 a FROM t;\<newline>  DROP IT;\<newline>\<newline>'')])
        procedure_text default_dialect []) =
       [decompose_call wrapper procedure_text,
        reassemble_call wrapper procedure_text (ustr ''SELECT a FROM t LIMIT 1;\<newline>DROP IT;'')]"
proof -
  let ?E = "example_env [Inr (ustr ''SELECT TOP 1 a FROM t;\<newline>  DROP IT;\<newline>\<newline>'')]"
  have dec: "decompose_procedure wrapper ?E procedure_text [] =
      (Inr [ustr ''SELECT TOP 1 a FROM t;'', ustr ''DROP IT;''], [decompose_call wrapper procedure_text])"
    by (simp add: decompose_procedure_eq example_env_def scripted_def str_defs)
  have c1: "convert_statement ?E default_dialect (ustr ''SELECT TOP 1 a FROM t;'') =
      ustr ''SELECT a FROM t LIMIT 1;''"
    by (simp add: convert_statement_def transpile0_def item0_def example_defs str_defs)
  have c2: "convert_statement ?E default_dialect (ustr ''DROP IT;'') = ustr ''DROP IT;''"
    by (simp add: convert_statement_def transpile0_def item0_def example_defs str_defs)
  have joined: "ustr ''SELECT a FROM t LIMIT 1;'' @ ustr ''\<newline>'' @ ustr ''DROP IT;'' =
      ustr ''SELECT a FROM t LIMIT 1;\<newline>DROP IT;''"
    by (simp add: ustr_def)
  from transpile_procedure_order [OF dec, of default_dialect] dec show ?thesis
    by (simp add: c1 c2 joined convert_loop_map reassemble_procedure_eq)
qed

text \<open>
  Claim C3. \<open>_query_type\<close> computes the class that the four rules of the specification
  give, taken in their priority order with the kind compared without regard to case, and
  names it by one of four strings that are pairwise different. It is a function of the
  parsed unit alone: it takes no log of calls and returns none.
\<close>

theorem query_type_classify:
  "query_type expression = class_name (classify expression)
   \<and> (\<forall>c c'. class_name c = class_name c' \<longrightarrow> c = c')"
proof -
  have "query_type expression = class_name (classify expression)"
  proof (cases "kind expression")
    case None
    then show ?thesis
      by (simp add: query_type_def classify_def upper_def ustr_def)
  next
    case (Some k)
    then show ?thesis
      by (simp add: query_type_def classify_def upper_PROCEDURE)
  qed
  then show ?thesis
    using class_name_inj by blast
qed

theorem query_type_classify_witness:
  "query_type procedure_unit = ustr ''stored procedure''
   \<and> classify procedure_unit = StoredProcedure"
proof -
  have q: "query_type procedure_unit = ustr ''stored procedure''"
    by (simp add: query_type_def procedure_unit_def upper_def upper_cp_def ustr_def)
  from query_type_classify [of procedure_unit] q
  have "class_name (classify procedure_unit) = class_name StoredProcedure"
    by simp
  with query_type_classify [of procedure_unit] have "classify procedure_unit = StoredProcedure"
    by blast
  with q show ?thesis by simp
qed

text \<open>
  Claim C4, amended. For a unit that parses and is not classified as a stored procedure,
  \<open>to_singlestore\<close> transpiles the text, sends the transpiled text to the assistant in
  one double-check call, and returns the assistant's response with the whitespace at its
  two ends removed; that is the response itself when it neither starts nor ends with
  whitespace. The transpiler's output is only what the prompt carries.
\<close>

theorem to_singlestore_validated:
  assumes parsed: "parse_one E sql dialect = Inr expression"
      and other: "query_type expression \<noteq> ustr ''stored procedure''"
      and transpiled: "transpile0 E sql dialect = Inr transpiled"
      and answered: "chat E log (validate_call self (query_type expression) transpiled) = Inr response"
  shows "to_singlestore self E sql dialect log =
           (Inr (strip response), log @ [validate_call self (query_type expression) transpiled])
       \<and> (response = [] \<or> (\<not> isspace (hd response) \<and> \<not> isspace (last response))
            \<longrightarrow> fst (to_singlestore self E sql dialect log) = Inr response)"
proof -
  have run: "to_singlestore self E sql dialect log =
      (Inr (strip response), log @ [validate_call self (query_type expression) transpiled])"
    using assms
    by (simp add: to_singlestore_def Let_def prompt_def ollama_chat_def propagate_def
          validate_call_def)
  then show ?thesis
    by (simp add: strip_id)
qed

theorem to_singlestore_validated_witness:
  "to_singlestore wrapper (example_env [Inr (ustr ''SELECT a FROM t LIMIT 1;'')])
     (ustr ''SELECT TOP 1 a FROM t'') default_dialect [] =
     (Inr (ustr ''SELECT a FROM t LIMIT 1;''),
      [validate_call wrapper (ustr ''query'') (ustr ''SELECT a FROM t LIMIT 1'')])
   \<and> fst (to_singlestore wrapper (example_env [Inr (ustr ''SELECT a FROM t LIMIT 1;'')])
     (ustr ''SELECT TOP 1 a FROM t'') default_dialect []) = Inr (ustr ''SELECT a FROM t LIMIT 1;'')"
proof -
  let ?E = "example_env [Inr (ustr ''SELECT a FROM t LIMIT 1;'')]"
  have other: "query_type select_unit \<noteq> ustr ''stored procedure''"
    by (simp add: example_select_kind ustr_def)
  have answered: "chat ?E [] (validate_call wrapper (query_type select_unit)
      (ustr ''SELECT a FROM t LIMIT 1'')) = Inr (ustr ''SELECT a FROM t LIMIT 1;'')"
    by (simp add: example_env_def scripted_def)
  have plain: "ustr ''SELECT a FROM t LIMIT 1;'' = [] \<or>
      (\<not> isspace (hd (ustr ''SELECT a FROM t LIMIT 1;'')) \<and>
       \<not> isspace (last (ustr ''SELECT a FROM t LIMIT 1;'')))"
    by (simp add: ustr_def isspace_def)
  have trimmed: "strip (ustr ''SELECT a FROM t LIMIT 1;'') = ustr ''SELECT a FROM t LIMIT 1;''"
    using plain by (rule strip_id)
  from to_singlestore_validated [OF example_select_parsed other example_select_transpiled answered]
    plain
  show ?thesis
    by (simp add: trimmed example_select_kind)
qed

text \<open>
  The response is not returned verbatim: an answer that ends in a newline comes back
  without it.
\<close>

theorem to_singlestore_not_verbatim:
  "chat (example_env [Inr (ustr ''SELECT a FROM t LIMIT 1;\<newline>'')]) []
     (validate_call wrapper (ustr ''query'') (ustr ''SELECT a FROM t LIMIT 1'')) =
     Inr (ustr ''SELECT a FROM t LIMIT 1;\<newline>'')
   \<and> fst (to_singlestore wrapper (example_env [Inr (ustr ''SELECT a FROM t LIMIT 1;\<newline>'')])
        (ustr ''SELECT TOP 1 a FROM t'') default_dialect []) =
       Inr (ustr ''SELECT a FROM t LIMIT 1;'')
   \<and> fst (to_singlestore wrapper (example_env [Inr (ustr ''SELECT a FROM t LIMIT 1;\<newline>'')])
        (ustr ''SELECT TOP 1 a FROM t'') default_dialect []) \<noteq>
       Inr (ustr ''SELECT a FROM t LIMIT 1;\<newline>'')"
  by (simp add: to_singlestore_def Let_def example_select_parsed example_select_kind
        example_select_transpiled prompt_def ollama_chat_def propagate_def)
     (simp add: example_env_def scripted_def str_defs)

text \<open>
  Claim C5. When the parser rejects the text, \<open>to_singlestore\<close> fails with its
  \<open>ValueError\<close>, the log of assistant calls being what it was: no call was made. The
  empty text is such a text for a parser that rejects it, as sqlglot's does. When the
  parser accepts the text, whatever \<open>to_singlestore\<close> returns or raises is not that
  \<open>ValueError\<close>.
\<close>

theorem to_singlestore_invalid_input:
  assumes empty_rejected: "isl (parse_one E [] dialect)"
  shows "(sql = [] \<or> isl (parse_one E sql dialect) \<longrightarrow>
            to_singlestore self E sql dialect log =
              (Inl (ValueError (ustr ''Please provide sql.'') (projl (parse_one E sql dialect))), log))
       \<and> (\<not> isl (parse_one E sql dialect) \<longrightarrow>
            (\<forall>m e. fst (to_singlestore self E sql dialect log) \<noteq> Inl (ValueError m e)))"
proof -
  have bad: "to_singlestore self E sql dialect log =
      (Inl (ValueError (ustr ''Please provide sql.'') (projl (parse_one E sql dialect))), log)"
    if "isl (parse_one E sql dialect)"
    using that by (cases "parse_one E sql dialect") (simp_all add: to_singlestore_def)
  have good: "fst (to_singlestore self E sql dialect log) \<noteq> Inl (ValueError m e)"
    if "\<not> isl (parse_one E sql dialect)" for m e
  proof -
    from that obtain expression where "parse_one E sql dialect = Inr expression"
      by (cases "parse_one E sql dialect") simp_all
    then show ?thesis
      by (simp add: to_singlestore_def Let_def propagate_def split: sum.splits prod.splits)
  qed
  from bad good empty_rejected show ?thesis by blast
qed

theorem to_singlestore_invalid_input_witness:
  "isl (parse_one (example_env []) [] default_dialect)
   \<and> to_singlestore wrapper (example_env []) [] default_dialect [] =
       (Inl (ValueError (ustr ''Please provide sql.'')
              (Exn ''ParseError'' (ustr ''No expression was parsed''))), [])
   \<and> to_singlestore wrapper (example_env []) (ustr ''SELEC a'') default_dialect [] =
       (Inl (ValueError (ustr ''Please provide sql.'')
              (Exn ''ParseError'' (ustr ''No expression was parsed''))), [])
   \<and> \<not> isl (parse_one (example_env []) (ustr ''SELECT TOP 1 a FROM t'') default_dialect)
   \<and> fst (to_singlestore wrapper (example_env []) (ustr ''SELECT TOP 1 a FROM t'') default_dialect [])
       \<noteq> Inl (ValueError (ustr ''Please provide sql.'')
                (Exn ''ParseError'' (ustr ''No expression was parsed'')))"
proof -
  let ?E = "example_env []"
  have empty: "parse_one ?E [] default_dialect = Inl (Exn ''ParseError'' (ustr ''No expression was parsed''))"
    by (simp add: example_defs ustr_def)
  have bad: "parse_one ?E (ustr ''SELEC a'') default_dialect =
      Inl (Exn ''ParseError'' (ustr ''No expression was parsed''))"
    by (simp add: example_defs ustr_def)
  have rejected: "isl (parse_one ?E [] default_dialect)"
    by (simp add: empty)
  note t = to_singlestore_invalid_input [OF rejected]
  from t [of "[]" wrapper "[]"] have r1: "to_singlestore wrapper ?E [] default_dialect [] =
       (Inl (ValueError (ustr ''Please provide sql.'')
              (Exn ''ParseError'' (ustr ''No expression was parsed''))), [])"
    by (simp add: empty)
  from t [of "ustr ''SELEC a''" wrapper "[]"]
  have r2: "to_singlestore wrapper ?E (ustr ''SELEC a'') default_dialect [] =
       (Inl (ValueError (ustr ''Please provide sql.'')
              (Exn ''ParseError'' (ustr ''No expression was parsed''))), [])"
    by (simp add: bad)
  have ok: "\<not> isl (parse_one ?E (ustr ''SELECT TOP 1 a FROM t'') default_dialect)"
    by (simp add: example_select_parsed)
  with t [of "ustr ''SELECT TOP 1 a FROM t''" wrapper "[]"]
  have r3: "fst (to_singlestore wrapper ?E (ustr ''SELECT TOP 1 a FROM t'') default_dialect [])
       \<noteq> Inl (ValueError (ustr ''Please provide sql.'')
                (Exn ''ParseError'' (ustr ''No expression was parsed'')))"
    by blast
  from rejected r1 r2 ok r3 show ?thesis by blast
qed




text \<open>
  Claim C7. When the assistant answers, \<open>_decompose_procedure\<close> returns the response
  split into lines, each line trimmed, the lines that are then empty left out, in the
  order of the lines. Nothing else is looked at: every line that is not blank is in the
  batch, trimmed, whatever it says.
\<close>

theorem decompose_procedure_lines:
  assumes "chat E log (decompose_call self sql) = Inr response"
  shows "decompose_procedure self E sql log =
           (Inr (statement_batch response), log @ [decompose_call self sql])
       \<and> (\<forall>line \<in> set (splitlines response).
             strip line \<noteq> [] \<longrightarrow> strip line \<in> set (statement_batch response))"
proof -
  have "decompose_procedure self E sql log =
          (Inr (statement_batch response), log @ [decompose_call self sql])"
    using assms by (simp add: decompose_procedure_eq statement_batch_eq)
  moreover have "\<forall>line \<in> set (splitlines response).
      strip line \<noteq> [] \<longrightarrow> strip line \<in> set (statement_batch response)"
    by (auto simp: statement_batch_def)
  ultimately show ?thesis by blast
qed

theorem decompose_procedure_lines_witness:
  "decompose_procedure wrapper
     (example_env [Inr (ustr ''  SELECT 1;  \<newline>\<newline> not sql at all\<newline>'')]) procedure_text [] =
     (Inr [ustr ''SELECT 1;'', ustr ''not sql at all''], [decompose_call wrapper procedure_text])
   \<and> ustr '' not sql at all'' \<in> set (splitlines (ustr ''  SELECT 1;  \<newline>\<newline> not sql at all\<newline>''))
   \<and> ustr ''not sql at all'' \<in> set (statement_batch (ustr ''  SELECT 1;  \<newline>\<newline> not sql at all\<newline>''))"
proof -
  let ?R = "ustr ''  SELECT 1;  \<newline>\<newline> not sql at all\<newline>''"
  let ?E = "example_env [Inr ?R]"
  have answered: "chat ?E [] (decompose_call wrapper procedure_text) = Inr ?R"
    by (simp add: example_env_def scripted_def)
  have lines: "splitlines ?R = [ustr ''  SELECT 1;  '', [], ustr '' not sql at all'']"
    by (simp add: str_defs)
  have batch: "statement_batch ?R = [ustr ''SELECT 1;'', ustr ''not sql at all'']"
    by (simp add: statement_batch_def lines) (simp add: str_defs)
  have line: "ustr '' not sql at all'' \<in> set (splitlines ?R)"
    by (simp add: lines)
  have kept: "strip (ustr '' not sql at all'') = ustr ''not sql at all''"
    by (simp add: str_defs)
  have nonblank: "strip (ustr '' not sql at all'') \<noteq> []"
    by (simp add: kept) (simp add: ustr_def)
  from decompose_procedure_lines [OF answered] line nonblank
  have "decompose_procedure wrapper ?E procedure_text [] =
          (Inr (statement_batch ?R), [decompose_call wrapper procedure_text])
        \<and> strip (ustr '' not sql at all'') \<in> set (statement_batch ?R)"
    by auto
  with line show ?thesis
    by (simp add: batch kept)
qed

text \<open>
  Claim C8. On the procedure path, an exception of the assistant call of decomposition
  leaves \<open>to_singlestore\<close> as it was raised, after that one call; an exception of the
  assistant call of reassembly does the same, after the two calls. In both cases the
  result is the exception and no text.
\<close>

theorem assistant_failure_propagates:
  assumes parsed: "parse_one E sql dialect = Inr expression"
      and proc: "query_type expression = ustr ''stored procedure''"
  shows "(chat E log (decompose_call self sql) = Inl e \<longrightarrow>
            to_singlestore self E sql dialect log =
              (Inl (Propagated e), log @ [decompose_call self sql]))
       \<and> (chat E log (decompose_call self sql) = Inr response \<and>
          chat E (log @ [decompose_call self sql])
            (reassemble_call self sql
               (join (ustr ''\<newline>'') (map (convert_statement E dialect) (statement_batch response))))
            = Inl e \<longrightarrow>
            to_singlestore self E sql dialect log =
              (Inl (Propagated e),
               log @ [decompose_call self sql,
                      reassemble_call self sql
                        (join (ustr ''\<newline>'')
                           (map (convert_statement E dialect) (statement_batch response)))]))"
proof -
  have path: "to_singlestore self E sql dialect log =
      propagate (wrapper_transpile_procedure self E sql dialect log)"
    using parsed proc by (simp add: to_singlestore_def Let_def)
  show ?thesis
    by (simp add: path wrapper_transpile_procedure_eq decompose_procedure_eq
          reassemble_procedure_eq statement_batch_eq propagate_def)
qed

theorem assistant_failure_propagates_witness:
  "to_singlestore wrapper (example_env []) procedure_text default_dialect [] =
     (Inl (Propagated service_down), [decompose_call wrapper procedure_text])
   \<and> to_singlestore wrapper (example_env [Inr (ustr ''SELECT 1;\<newline>'')]) procedure_text
       default_dialect [] =
     (Inl (Propagated service_down),
      [decompose_call wrapper procedure_text,
       reassemble_call wrapper procedure_text (ustr ''SELECT 1;'')])"
proof -
  let ?E1 = "example_env []"
  let ?E2 = "example_env [Inr (ustr ''SELECT 1;\<newline>'')]"
  have down1: "chat ?E1 [] (decompose_call wrapper procedure_text) = Inl service_down"
    by (simp add: example_env_def scripted_def)
  from assistant_failure_propagates
    [OF example_procedure_parsed example_procedure_kind, of "[]" "[]" wrapper service_down]
    down1
  have first: "to_singlestore wrapper ?E1 procedure_text default_dialect [] =
     (Inl (Propagated service_down), [decompose_call wrapper procedure_text])"
    by simp
  have up2: "chat ?E2 [] (decompose_call wrapper procedure_text) = Inr (ustr ''SELECT 1;\<newline>'')"
    by (simp add: example_env_def scripted_def)
  have batch: "statement_batch (ustr ''SELECT 1;\<newline>'') = [ustr ''SELECT 1;'']"
    by (simp add: statement_batch_def str_defs)
  have conv: "convert_statement ?E2 default_dialect (ustr ''SELECT 1;'') = ustr ''SELECT 1;''"
    by (simp add: convert_statement_def transpile0_def item0_def example_defs str_defs)
  have down2: "chat ?E2 ([] @ [decompose_call wrapper procedure_text])
      (reassemble_call wrapper procedure_text
        (join (ustr ''\<newline>'')
          (map (convert_statement ?E2 default_dialect) (statement_batch (ustr ''SELECT 1;\<newline>'')))))
      = Inl service_down"
    by (simp add: example_env_def scripted_def)
  from assistant_failure_propagates
    [OF example_procedure_parsed example_procedure_kind,
     of "[Inr (ustr ''SELECT 1;\<newline>'')]" "[]" wrapper service_down "ustr ''SELECT 1;\<newline>''"]
    up2 down2
  have second: "to_singlestore wrapper ?E2 procedure_text default_dialect [] =
     (Inl (Propagated service_down),
      [decompose_call wrapper procedure_text,
       reassemble_call wrapper procedure_text (ustr ''SELECT 1;'')])"
    by (simp add: batch conv)
  from first second show ?thesis by simp
qed

text \<open>
  Claim C9. The calls of \<open>LLMWrapper\<close> pass \<open>model\<close> and \<open>messages\<close> to
  \<open>ollama.chat\<close> and nothing else: on the text \<open>SELECT TOP 1 a FROM t\<close> the one call
  made has no \<open>timeout\<close> among its keyword arguments. (\<open>_call_llm\<close> of \<open>procedure.py\<close>
  passes \<open>timeout=60\<close>, see \<open>call_llm_calls\<close>.)
\<close>

theorem to_singlestore_call_without_timeout:
  "snd (to_singlestore wrapper (example_env [Inr (ustr ''SELECT a FROM t LIMIT 1'')])
          (ustr ''SELECT TOP 1 a FROM t'') default_dialect []) =
     [[(''model'', Str (ustr ''llama3'')),
       (''messages'',
        Arr [msg (ustr ''system'') (ustr ''You translate SQL between dialects.''),
             msg (ustr ''user'')
               (ustr ''Double check that the following query is valid SingleStore SQL:\<newline>SELECT a FROM t LIMIT 1'')])]]
   \<and> map_of (hd (snd (to_singlestore wrapper (example_env [Inr (ustr ''SELECT a FROM t LIMIT 1'')])
          (ustr ''SELECT TOP 1 a FROM t'') default_dialect []))) ''timeout'' = None"
proof -
  have user_text: "ustr ''Double check that the following '' @ ustr ''query'' @
      ustr '' is valid SingleStore SQL:\<newline>'' @ ustr ''SELECT a FROM t LIMIT 1'' =
      ustr ''Double check that the following query is valid SingleStore SQL:\<newline>SELECT a FROM t LIMIT 1''"
    by (simp add: ustr_def)
  have run: "snd (to_singlestore wrapper (example_env [Inr (ustr ''SELECT a FROM t LIMIT 1'')])
          (ustr ''SELECT TOP 1 a FROM t'') default_dialect []) =
     [[(''model'', Str (ustr ''llama3'')),
       (''messages'',
        Arr [msg (ustr ''system'') (ustr ''You translate SQL between dialects.''),
             msg (ustr ''user'')
               (ustr ''Double check that the following query is valid SingleStore SQL:\<newline>SELECT a FROM t LIMIT 1'')])]]"
    by (simp add: to_singlestore_def Let_def example_select_parsed example_select_kind
          example_select_transpiled prompt_def ollama_chat_def propagate_def chat_kwargs_def
          wrapper_def init_def default_model_def user_text
          split: sum.splits prod.splits)
       (simp add: ustr_def)
  show ?thesis
    by (simp add: run)
qed

text \<open>
  Claim C10. When every line of the extraction response is blank, decomposition returns
  the empty batch, the loop has nothing to do, reassembly is called with the empty text
  for the converted statements, and \<open>_transpile_procedure\<close> returns what that call
  gives: the trimmed response when the assistant answers.
\<close>

theorem empty_batch_reassembled:
  assumes answered: "chat E log (decompose_call self sql) = Inr response"
      and blank: "\<forall>line \<in> set (splitlines response). strip line = []"
  shows "fst (decompose_procedure self E sql log) = Inr []
       \<and> convert_loop E dialect [] [] = []
       \<and> wrapper_transpile_procedure self E sql dialect log =
           (case chat E (log @ [decompose_call self sql]) (reassemble_call self sql []) of
              Inl e \<Rightarrow> Inl e
            | Inr content \<Rightarrow> Inr (strip content),
            log @ [decompose_call self sql, reassemble_call self sql []])
       \<and> (\<forall>content.
            chat E (log @ [decompose_call self sql]) (reassemble_call self sql []) = Inr content \<longrightarrow>
            fst (wrapper_transpile_procedure self E sql dialect log) = Inr (strip content))"
proof -
  from blank have none: "statement_batch response = []"
    by (simp add: statement_batch_def filter_empty_conv)
  have dec: "fst (decompose_procedure self E sql log) = Inr []"
    using answered none by (simp add: decompose_procedure_eq statement_batch_eq)
  have run: "wrapper_transpile_procedure self E sql dialect log =
           (case chat E (log @ [decompose_call self sql]) (reassemble_call self sql []) of
              Inl e \<Rightarrow> Inl e
            | Inr content \<Rightarrow> Inr (strip content),
            log @ [decompose_call self sql, reassemble_call self sql []])"
    by (simp add: wrapper_transpile_procedure_eq dec reassemble_procedure_eq)
  from dec run show ?thesis by simp
qed

theorem empty_batch_reassembled_witness:
  "map strip (splitlines (ustr '' \<newline>\<newline>'')) = [[], []]
   \<and> wrapper_transpile_procedure wrapper
       (example_env [Inr (ustr '' \<newline>\<newline>''),
                     Inr (ustr '' CREATE OR REPLACE PROCEDURE p() AS BEGIN END;\<newline>'')])
       procedure_text default_dialect [] =
     (Inr (ustr ''CREATE OR REPLACE PROCEDURE p() AS BEGIN END;''),
      [decompose_call wrapper procedure_text, reassemble_call wrapper procedure_text []])"
proof -
  let ?E = "example_env [Inr (ustr '' \<newline>\<newline>''),
                     Inr (ustr '' CREATE OR REPLACE PROCEDURE p() AS BEGIN END;\<newline>'')]"
  have answered: "chat ?E [] (decompose_call wrapper procedure_text) = Inr (ustr '' \<newline>\<newline>'')"
    by (simp add: example_env_def scripted_def)
  have blank: "\<forall>line \<in> set (splitlines (ustr '' \<newline>\<newline>'')). strip line = []"
    by (simp add: str_defs)
  have again: "chat ?E ([] @ [decompose_call wrapper procedure_text])
      (reassemble_call wrapper procedure_text []) =
      Inr (ustr '' CREATE OR REPLACE PROCEDURE p() AS BEGIN END;\<newline>'')"
    by (simp add: example_env_def scripted_def)
  have trimmed: "strip (ustr '' CREATE OR REPLACE PROCEDURE p() AS BEGIN END;\<newline>'') =
      ustr ''CREATE OR REPLACE PROCEDURE p() AS BEGIN END;''"
    by (simp add: str_defs)
  from empty_batch_reassembled [OF answered blank, of default_dialect] again
  have "wrapper_transpile_procedure wrapper ?E procedure_text default_dialect [] =
     (Inr (strip (ustr '' CREATE OR REPLACE PROCEDURE p() AS BEGIN END;\<newline>'')),
      [decompose_call wrapper procedure_text, reassemble_call wrapper procedure_text []])"
    by simp
  moreover have "map strip (splitlines (ustr '' \<newline>\<newline>'')) = [[], []]"
    by (simp add: str_defs)
  ultimately show ?thesis
    by (simp add: trimmed)
qed

end
